theory Spec2Isabelle
  imports Main "HOL-Library.Sublist"
begin

section \<open>zephyr/handlers.py: error-log handlers\<close>

text \<open>
  The module formats an error log record and forwards it to an internal message
  stream (\<open>AdminHumbugHandler\<close>) and to the site administrators' mail
  (\<open>HumbugAdminEmailHandler\<close>). Python byte strings are \<open>string\<close>; an
  operation that may raise returns \<open>pyexc + 'a\<close> with \<open>Inl\<close> the exception.
\<close>

subsection \<open>Characters and \<open>str.replace\<close>\<close>

abbreviation LF :: char where "LF \<equiv> CHR 0x0A"
abbreviation CR :: char where "CR \<equiv> CHR 0x0D"
abbreviation BSL :: char where "BSL \<equiv> CHR 0x5C"
abbreviation DQ :: char where "DQ \<equiv> CHR 0x22"

text \<open>
  Python's \<open>s.replace(old, new)\<close>: scanning from the left, every non-overlapping
  occurrence of \<open>old\<close> is replaced by \<open>new\<close>; an empty \<open>old\<close> matches before
  every character and at the end.
\<close>

function py_replace :: "string \<Rightarrow> string \<Rightarrow> string \<Rightarrow> string" where
  "py_replace old new [] = (if old = [] then new else [])"
| "py_replace old new (c # cs) =
     (if old = [] then new @ c # py_replace old new cs
      else if prefix old (c # cs) then new @ py_replace old new (drop (length old) (c # cs))
      else c # py_replace old new cs)"
  by pat_completeness auto
termination
  by (relation "measure (\<lambda>(old, new, s). length s)") (auto simp: neq_Nil_conv)

subsection \<open>\<open>AdminHumbugHandler.format_subject\<close>\<close>

text \<open>
  \<open>MAX_SUBJECT_LENGTH\<close> is imported from \<open>zephyr.models\<close>, which is not part of
  the module; it is a parameter here. It is a length, hence a \<open>nat\<close>, and the slice
  \<open>formatted_subject[:MAX_SUBJECT_LENGTH]\<close> keeps the first that many characters.
\<close>

definition format_subject :: "nat \<Rightarrow> string \<Rightarrow> string" where
  "format_subject MAX_SUBJECT_LENGTH subject =
     (let formatted_subject = py_replace [CR] [BSL, CHR ''r'']
                                (py_replace [LF] [BSL, CHR ''n''] subject)
      in take MAX_SUBJECT_LENGTH formatted_subject)"

text \<open>
  The escaping as the documentation words it: each character on its own, a newline
  becoming backslash-n and a carriage return backslash-r.
\<close>

definition escape_char :: "char \<Rightarrow> string" where
  "escape_char c = (if c = LF then [BSL, CHR ''n'']
                    else if c = CR then [BSL, CHR ''r''] else [c])"

definition escape_crlf :: "string \<Rightarrow> string" where
  "escape_crlf s = concat (map escape_char s)"

subsection \<open>Exceptions and values\<close>

text \<open>
  The exceptions the collaborators may raise. \<open>SystemExit\<close>,
  \<open>KeyboardInterrupt\<close> and \<open>GeneratorExit\<close> derive from \<open>BaseException\<close>
  only; the others derive from \<open>Exception\<close>. The module uses both
  \<open>except Exception:\<close> and a bare \<open>except:\<close>.
\<close>

datatype pyexc =
    AttributeError | TypeError | KeyError | ValueError
  | ObjectDoesNotExist | DatabaseError | IOError
  | SystemExit | KeyboardInterrupt | GeneratorExit

fun is_Exception :: "pyexc \<Rightarrow> bool" where
  "is_Exception SystemExit = False"
| "is_Exception KeyboardInterrupt = False"
| "is_Exception GeneratorExit = False"
| "is_Exception _ = True"

definition and_then :: "pyexc + 'a \<Rightarrow> ('a \<Rightarrow> pyexc + 'b) \<Rightarrow> pyexc + 'b" where
  "and_then x f = (case x of Inl e \<Rightarrow> Inl e | Inr v \<Rightarrow> f v)"

text \<open>\<open>try: body except Exception: handler\<close>\<close>

definition try_except_Exception :: "pyexc + 'a \<Rightarrow> pyexc + 'a \<Rightarrow> pyexc + 'a" where
  "try_except_Exception body handler =
     (case body of
        Inr v \<Rightarrow> Inr v
      | Inl e \<Rightarrow> (if is_Exception e then handler else Inl e))"

text \<open>The values the \<open>html_message\<close> expression ranges over, with Python's truth test.\<close>

datatype pyval = PyNone | PyBool bool | PyStr string

fun truthy :: "pyval \<Rightarrow> bool" where
  "truthy PyNone = False"
| "truthy (PyBool b) = b"
| "truthy (PyStr s) = (s \<noteq> [])"

text \<open>\<open>a and b\<close>: the right operand is evaluated only when the left one is true.\<close>

definition py_and :: "pyval \<Rightarrow> pyexc + pyval \<Rightarrow> pyexc + pyval" where
  "py_and a b = (if truthy a then b else Inr a)"

definition py_or :: "pyval \<Rightarrow> pyval \<Rightarrow> pyval" where
  "py_or a b = (if truthy a then a else b)"

text \<open>\<open>d.get(key, default)\<close> on a dictionary held as an association list.\<close>

definition dict_get :: "(string \<times> string) list \<Rightarrow> string \<Rightarrow> string \<Rightarrow> string" where
  "dict_get d k dflt = (case map_of d k of Some v \<Rightarrow> v | None \<Rightarrow> dflt)"

subsection \<open>Log records, requests and collaborators\<close>

text \<open>
  Every attribute read may raise (a missing attribute is \<open>AttributeError\<close>; the
  request's user and the user's profile are loaded lazily and may raise anything).
  Attribute values that are only ever formatted with \<open>%s\<close> are held as their text.
  The field \<open>request_method\<close> is the request's \<open>method\<close> attribute, whose
  own name is reserved.
\<close>

record user_profile =
  full_name :: "pyexc + string"

record django_user =
  userprofile :: "pyexc + user_profile"
  email :: "pyexc + string"

record http_request =
  path :: "pyexc + string"
  request_method :: "pyexc + string"
  GET :: "pyexc + string"
  META :: "pyexc + (string \<times> string) list"
  user :: "pyexc + django_user"

text \<open>The triple \<open>(type, value, traceback)\<close> of a record that carries an exception.\<close>

datatype exception_info = ExcInfo string string "string list"

text \<open>
  \<open>exc_info\<close> is \<open>None\<close> for a record without exception info (any false value
  behaves alike: it fails the test in \<open>format_record\<close> and cannot be unpacked into
  the exception reporter's arguments).
\<close>

record log_record =
  getMessage :: "pyexc + string"
  exc_info :: "exception_info option"
  request :: "pyexc + http_request"

text \<open>
  Modelled from the spec: \<open>zephyr.models.Recipient\<close> is not part of the module; the
  spec calls the kind used here the channel (stream) kind, one of the recipient kinds.
\<close>

datatype recipient_kind = PERSONAL | STREAM | HUDDLE

text \<open>
  What the module imports and calls but does not define: \<open>platform.node\<close>,
  \<open>traceback.format_exception\<close>, the exception reporter filter's
  \<open>get_post_parameters\<close> and \<open>get_request_repr\<close>, the exception reporter's
  \<open>get_traceback_html\<close>, \<open>internal_send_message\<close> (\<open>None\<close> when it returns,
  \<open>Some e\<close> when it raises \<open>e\<close>), \<open>MAX_SUBJECT_LENGTH\<close>, and the
  \<open>format_subject\<close> the e-mail handler inherits from the framework's handler.
\<close>

record collaborators =
  node :: string
  format_exception :: "exception_info \<Rightarrow> string list"
  get_post_parameters :: "http_request \<Rightarrow> pyexc + string"
  get_request_repr :: "http_request \<Rightarrow> pyexc + string"
  get_traceback_html :: "http_request option \<Rightarrow> exception_info \<Rightarrow> pyexc + pyval"
  internal_send_message ::
    "string \<Rightarrow> recipient_kind \<Rightarrow> string \<Rightarrow> string \<Rightarrow> string \<Rightarrow> pyexc option"
  MAX_SUBJECT_LENGTH :: nat
  admin_format_subject :: "string \<Rightarrow> string"

text \<open>What a handler does to the outside: sends, local log calls, mails.\<close>

datatype log_level = WARNING | ERROR

datatype effect =
    InternalSend string recipient_kind string string string
  | LogCall log_level string "pyexc option"
  | MailAdmins string string bool pyval

fun is_send :: "effect \<Rightarrow> bool" where
  "is_send (InternalSend a k c s b) = True"
| "is_send _ = False"

fun log_calls_at :: "log_level \<Rightarrow> effect list \<Rightarrow> effect list" where
  "log_calls_at l [] = []"
| "log_calls_at l (LogCall l' m e # cs) =
     (if l' = l then LogCall l' m e # log_calls_at l cs else log_calls_at l cs)"
| "log_calls_at l (c # cs) = log_calls_at l cs"

subsection \<open>\<open>format_record\<close>\<close>

text \<open>The body of the \<open>try\<close> that looks the user up.\<close>

definition user_info_lookup :: "log_record \<Rightarrow> pyexc + string" where
  "user_info_lookup r =
     and_then (request r) (\<lambda>rq.
     and_then (user rq) (\<lambda>u.
     and_then (userprofile u) (\<lambda>p.
     and_then (full_name p) (\<lambda>fn.
     and_then (email u) (\<lambda>em.
       Inr (fn @ '' ('' @ em @ '')''))))))"

definition format_record :: "collaborators \<Rightarrow> log_record \<Rightarrow> pyexc + (string \<times> string \<times> string)" where
  "format_record env r =
     and_then (getMessage r) (\<lambda>msg.
       let subject = node env @ '': '' @ msg;
           stack_trace = (case exc_info r of
                            Some ei \<Rightarrow> concat (format_exception env ei)
                          | None \<Rightarrow> ''No stack trace available'')
       in and_then (try_except_Exception (user_info_lookup r)
                      (Inr ''Anonymous user (not logged in)''))
            (\<lambda>user_info. Inr (subject, stack_trace, user_info)))"

subsection \<open>\<open>AdminHumbugHandler.emit\<close>\<close>

definition meta_line :: "(string \<times> string) list \<Rightarrow> string \<Rightarrow> string" where
  "meta_line meta field =
     ''- '' @ field @ '': '' @ [DQ] @ dict_get meta field ''(None)'' @ [DQ, LF]"

text \<open>The body of the first \<open>try\<close> of \<open>emit\<close>.\<close>

definition build_request_repr :: "collaborators \<Rightarrow> log_record \<Rightarrow> pyexc + string" where
  "build_request_repr env r =
     and_then (request r) (\<lambda>rq.
     and_then (path rq) (\<lambda>p.
     and_then (request_method rq) (\<lambda>m.
     and_then (if m = ''GET'' then
                 and_then (GET rq) (\<lambda>g. Inr (''- GET: '' @ g @ [LF]))
               else if m = ''POST'' then
                 and_then (get_post_parameters env rq) (\<lambda>pp. Inr (''- POST: '' @ pp @ [LF]))
               else Inr []) (\<lambda>params.
     and_then (META rq) (\<lambda>meta.
       Inr (''Request info:\<newline>~~~~\<newline>'' @ ''- path: '' @ p @ [LF] @ params
            @ concat (map (meta_line meta) [''REMOTE_ADDR'', ''QUERY_STRING'', ''SERVER_NAME''])
            @ ''~~~~''))))))"

text \<open>The first \<open>try\<close> with its \<open>except Exception\<close> handler.\<close>

definition request_repr_block :: "collaborators \<Rightarrow> log_record \<Rightarrow> pyexc + string" where
  "request_repr_block env r =
     try_except_Exception (build_request_repr env r)
       (and_then (getMessage r) (\<lambda>msg. Inr (''Log record message:\<newline>'' @ msg)))"

definition message_body :: "string \<Rightarrow> string \<Rightarrow> string \<Rightarrow> string" where
  "message_body user_info stack_trace request_repr =
     ''Error generated by '' @ user_info @ ''\<newline>\<newline>~~~~ pytb\<newline>'' @ stack_trace
     @ ''\<newline>\<newline>~~~~\<newline>'' @ request_repr"

text \<open>
  \<open>emit\<close> returns what it did and how it ended: \<open>Inr ()\<close> when it returns,
  \<open>Inl e\<close> when \<open>e\<close> is raised to its caller. The send sits in a \<open>try\<close> with a
  bare \<open>except:\<close>, whose handler calls \<open>logging.warning\<close> with \<open>exc_info=True\<close>.
\<close>

definition emit :: "collaborators \<Rightarrow> log_record \<Rightarrow> effect list \<times> (pyexc + unit)" where
  "emit env r =
     (case request_repr_block env r of
        Inl e \<Rightarrow> ([], Inl e)
      | Inr request_repr \<Rightarrow>
        (case format_record env r of
           Inl e \<Rightarrow> ([], Inl e)
         | Inr (subject, stack_trace, user_info) \<Rightarrow>
           (let subj = format_subject (MAX_SUBJECT_LENGTH env) subject;
                body = message_body user_info stack_trace request_repr;
                call = InternalSend ''humbug+errors@humbughq.com'' STREAM ''devel'' subj body
            in case internal_send_message env ''humbug+errors@humbughq.com'' STREAM ''devel''
                      subj body of
                 None \<Rightarrow> ([call], Inr ())
               | Some e \<Rightarrow>
                   ([call, LogCall WARNING ''Reporting an exception triggered an exception!''
                             (Some e)], Inr ()))))"

subsection \<open>\<open>HumbugAdminEmailHandler.emit\<close>\<close>

record email_handler =
  include_html :: pyval

text \<open>The first \<open>try\<close>: the request is kept, or forgotten in the handler.\<close>

definition email_request_repr ::
  "collaborators \<Rightarrow> log_record \<Rightarrow> pyexc + (http_request option \<times> string)" where
  "email_request_repr env r =
     try_except_Exception
       (and_then (request r) (\<lambda>rq.
        and_then (get_request_repr env rq) (\<lambda>request_repr. Inr (Some rq, request_repr))))
       (and_then (getMessage r) (\<lambda>msg. Inr (None, ''Log record message:\<newline>'' @ msg)))"

text \<open>
  The body of the second \<open>try\<close>: unpacking \<open>*record.exc_info\<close> raises
  \<open>TypeError\<close> when there is no exception info; then
  \<open>self.include_html and reporter.get_traceback_html() or None\<close>.
\<close>

definition build_html_message ::
  "collaborators \<Rightarrow> email_handler \<Rightarrow> log_record \<Rightarrow> http_request option \<Rightarrow> pyexc + pyval" where
  "build_html_message env h r req =
     (case exc_info r of
        None \<Rightarrow> Inl TypeError
      | Some ei \<Rightarrow>
          and_then (py_and (include_html h) (get_traceback_html env req ei))
            (\<lambda>v. Inr (py_or v PyNone)))"

definition html_message :: 
  "collaborators \<Rightarrow> email_handler \<Rightarrow> log_record \<Rightarrow> http_request option \<Rightarrow> pyexc + pyval" where
  "html_message env h r req =
     try_except_Exception (build_html_message env h r req) (Inr PyNone)"

definition email_message :: "string \<Rightarrow> string \<Rightarrow> string \<Rightarrow> string" where
  "email_message user_info stack_trace request_repr =
     ''Error generated by '' @ user_info @ ''\<newline>\<newline>'' @ stack_trace
     @ ''\<newline>\<newline>'' @ request_repr"

definition email_emit ::
  "collaborators \<Rightarrow> email_handler \<Rightarrow> log_record \<Rightarrow> effect list \<times> (pyexc + unit)" where
  "email_emit env h r =
     (case email_request_repr env r of
        Inl e \<Rightarrow> ([], Inl e)
      | Inr (req, request_repr) \<Rightarrow>
        (case format_record env r of
           Inl e \<Rightarrow> ([], Inl e)
         | Inr (subject, stack_trace, user_info) \<Rightarrow>
           (case html_message env h r req of
              Inl e \<Rightarrow> ([], Inl e)
            | Inr html \<Rightarrow>
                ([MailAdmins (admin_format_subject env subject)
                    (email_message user_info stack_trace request_repr) True html],
                 Inr ()))))"

subsection \<open>Sample inputs\<close>

definition alice :: django_user where
  "alice = \<lparr> userprofile = Inr \<lparr> full_name = Inr ''Alice'' \<rparr>, email = Inr ''alice@x.com'' \<rparr>"

definition foo_request :: http_request where
  "foo_request = \<lparr> path = Inr ''/foo'', request_method = Inr ''GET'', GET = Inr ''x=1'',
                    META = Inr [(''REMOTE_ADDR'', ''10.0.0.1''), (''QUERY_STRING'', ''x=1'')],
                    user = Inr alice \<rparr>"

definition db_error :: exception_info where
  "db_error = ExcInfo ''DatabaseError'' ''gone'' [''  File views.py, line 3\<newline>'']"

definition sample_env :: "pyexc option \<Rightarrow> pyexc + pyval \<Rightarrow> collaborators" where
  "sample_env send_outcome html_outcome =
     \<lparr> node = ''host1'',
       format_exception = (\<lambda>ei. case ei of ExcInfo t v tb \<Rightarrow>
                              ''Traceback (most recent call last):\<newline>'' # tb
                              @ [t @ '': '' @ v @ [LF]]),
       get_post_parameters = (\<lambda>rq. Inr ''{}''),
       get_request_repr = (\<lambda>rq. Inr ''<WSGIRequest>''),
       get_traceback_html = (\<lambda>req ei. html_outcome),
       internal_send_message = (\<lambda>a k c s b. send_outcome),
       MAX_SUBJECT_LENGTH = 60,
       admin_format_subject = format_subject 989 \<rparr>"

definition sample_record ::
  "pyexc + string \<Rightarrow> exception_info option \<Rightarrow> pyexc + http_request \<Rightarrow> log_record" where
  "sample_record msg ei rq = \<lparr> getMessage = msg, exc_info = ei, request = rq \<rparr>"

subsection \<open>Facts about replacement\<close>

lemma py_replace_single:
  "py_replace [a] new s = concat (map (\<lambda>c. if c = a then new else [c]) s)"
  by (induction s) auto

lemma replace_lf_then_cr:
  "py_replace [CR] [BSL, CHR ''r''] (py_replace [LF] [BSL, CHR ''n''] s) = escape_crlf s"
  unfolding py_replace_single escape_crlf_def
  by (induction s) (auto simp: escape_char_def)

lemma format_subject_escape:
  "format_subject m s = take m (escape_crlf s)"
  by (simp add: format_subject_def replace_lf_then_cr)

lemma escape_crlf_clean:
  "LF \<notin> set (escape_crlf s) \<and> CR \<notin> set (escape_crlf s)"
  by (induction s) (auto simp: escape_crlf_def escape_char_def)

lemma escape_crlf_fixed:
  "LF \<notin> set s \<Longrightarrow> CR \<notin> set s \<Longrightarrow> escape_crlf s = s"
  by (induction s) (auto simp: escape_crlf_def escape_char_def)

lemma format_subject_clean:
  "LF \<notin> set (format_subject m s) \<and> CR \<notin> set (format_subject m s)"
  using escape_crlf_clean [of s] set_take_subset [of m "escape_crlf s"]
  by (auto simp: format_subject_escape)

lemma format_subject_short: "length (format_subject m s) \<le> m"
  by (simp add: format_subject_escape)

subsection \<open>Subject formatting: the claims\<close>

text \<open>
  C4. For every input string, \<open>format_subject\<close> replaces each newline character by
  the two characters backslash, n and each carriage return by backslash, r, then
  truncates; the length of the result never exceeds \<open>MAX_SUBJECT_LENGTH\<close>.
\<close>

theorem format_subject_escapes_then_truncates:
  "format_subject m s = take m (escape_crlf s) \<and> length (format_subject m s) \<le> m"
  by (simp add: format_subject_escape)

theorem format_subject_escapes_then_truncates_witness:
  "format_subject 6 [CHR ''a'', LF, CHR ''b'', CR, CHR ''c'', CHR ''d'']
     = [CHR ''a'', BSL, CHR ''n'', CHR ''b'', BSL, CHR ''r'']
   \<and> length (format_subject 6 [CHR ''a'', LF, CHR ''b'', CR, CHR ''c'', CHR ''d'']) \<le> 6"
  using format_subject_escapes_then_truncates
          [of 6 "[CHR ''a'', LF, CHR ''b'', CR, CHR ''c'', CHR ''d'']"]
  by (simp add: escape_crlf_def escape_char_def)

text \<open>
  C9. \<open>format_subject\<close> is idempotent: the first application leaves no newline and
  no carriage return and a length within the maximum, so a second one changes
  nothing.
\<close>

theorem format_subject_idempotent:
  "format_subject m (format_subject m s) = format_subject m s"
proof -
  let ?t = "format_subject m s"
  have clean: "LF \<notin> set ?t" "CR \<notin> set ?t"
    using format_subject_clean [of m s] by simp_all
  have "format_subject m ?t = take m (escape_crlf ?t)"
    by (rule format_subject_escape)
  also have "\<dots> = take m ?t"
    using clean by (simp add: escape_crlf_fixed)
  also have "\<dots> = ?t"
    using format_subject_short [of m s] by simp
  finally show ?thesis .
qed

theorem format_subject_idempotent_witness:
  "format_subject 3 (format_subject 3 [CHR ''a'', LF, CHR ''b''])
   = format_subject 3 [CHR ''a'', LF, CHR ''b'']"
  by (rule format_subject_idempotent)

subsection \<open>Facts about the exception plumbing\<close>


lemma try_except_Exception_Inr [simp]: "try_except_Exception (Inr v) h = Inr v"
  by (simp add: try_except_Exception_def)

lemma and_then_Inr [simp]: "and_then (Inr v) f = f v"
  by (simp add: and_then_def)

lemma and_then_Inl [simp]: "and_then (Inl e) f = Inl e"
  by (simp add: and_then_def)

lemma user_info_guarded:
  "(\<forall>e. user_info_lookup r = Inl e \<longrightarrow> is_Exception e) \<Longrightarrow>
   \<exists>ui. try_except_Exception (user_info_lookup r) (Inr ''Anonymous user (not logged in)'') = Inr ui"
  by (cases "user_info_lookup r") (auto simp: try_except_Exception_def)

lemma format_record_returns:
  assumes "getMessage r = Inr msg"
    and "\<forall>e. user_info_lookup r = Inl e \<longrightarrow> is_Exception e"
  shows "\<exists>t. format_record env r = Inr t"
  using user_info_guarded [OF assms(2)] assms(1)
  by (auto simp: format_record_def Let_def)

lemma request_repr_block_returns:
  assumes "getMessage r = Inr msg"
    and "\<forall>e. build_request_repr env r = Inl e \<longrightarrow> is_Exception e"
  shows "\<exists>rr. request_repr_block env r = Inr rr"
  using assms
  by (cases "build_request_repr env r") (auto simp: request_repr_block_def try_except_Exception_def)

lemma emit_returns_after_format:
  "request_repr_block env r = Inr rr \<Longrightarrow> format_record env r = Inr t \<Longrightarrow> snd (emit env r) = Inr ()"
  by (cases t) (auto simp: emit_def Let_def split: option.splits)

subsection \<open>Claims about \<open>AdminHumbugHandler.emit\<close>\<close>

text \<open>
  C1 (as amended). \<open>emit\<close> returns to its caller without raising whenever
  \<open>record.getMessage()\<close> returns and every exception raised while the request
  summary is built or the user is looked up is an instance of \<open>Exception\<close>; a
  failure of the send, of whatever type, is handled inside \<open>emit\<close>. (As stated the
  claim fails: \<open>format_record\<close> is called outside any \<open>try\<close>, so a raising
  \<open>getMessage\<close> propagates, and \<open>except Exception\<close> lets \<open>KeyboardInterrupt\<close>
  through.)
\<close>
theorem emit_returns_when_lookups_raise_Exception:
  assumes "getMessage r = Inr msg"
    and "\<forall>e. build_request_repr env r = Inl e \<longrightarrow> is_Exception e"
    and "\<forall>e. user_info_lookup r = Inl e \<longrightarrow> is_Exception e"
  shows "snd (emit env r) = Inr ()"
proof -
  obtain rr where rr: "request_repr_block env r = Inr rr"
    using request_repr_block_returns [OF assms(1) assms(2)] by blast
  obtain t where t: "format_record env r = Inr t"
    using format_record_returns [OF assms(1) assms(3)] by blast
  show ?thesis using rr t by (rule emit_returns_after_format)
qed

theorem emit_returns_when_lookups_raise_Exception_witness:
  "snd (emit (sample_env (Some IOError) (Inr PyNone))
          (sample_record (Inr ''DB error'') None (Inl AttributeError))) = Inr ()"
  using emit_returns_when_lookups_raise_Exception
     [of "sample_record (Inr ''DB error'') None (Inl AttributeError)" "''DB error''"
         "sample_env (Some IOError) (Inr PyNone)"]
  by (simp add: sample_record_def build_request_repr_def user_info_lookup_def)

theorem emit_raises_counterexample:
  "snd (emit (sample_env None (Inr PyNone))
          (sample_record (Inl TypeError) None (Inr foo_request))) = Inl TypeError
   \<and> snd (emit (sample_env None (Inr PyNone))
          (sample_record (Inr ''DB error'') None
             (Inr (foo_request \<lparr> user := Inl KeyboardInterrupt \<rparr>)))) = Inl KeyboardInterrupt"
  by (simp add: emit_def request_repr_block_def build_request_repr_def format_record_def
      user_info_lookup_def sample_record_def sample_env_def foo_request_def meta_line_def
      dict_get_def try_except_Exception_def Let_def)

subsection \<open>Claims about \<open>format_record\<close>\<close>

text \<open>
  C2. \<open>format_record\<close> returns its triple whenever \<open>record.getMessage()\<close>
  returns and the user lookup raises nothing but instances of \<open>Exception\<close>, and
  in every triple it returns the stack-trace component is the concatenation of the
  formatted exception lines when the record carries exception info, and the literal
  \<open>No stack trace available\<close> when it does not.
\<close>
theorem format_record_stack_trace:
  "(getMessage r = Inr msg \<and> (\<forall>e. user_info_lookup r = Inl e \<longrightarrow> is_Exception e)
      \<longrightarrow> (\<exists>user_info.
             format_record env r
             = Inr (node env @ '': '' @ msg,
                    (case exc_info r of
                       Some ei \<Rightarrow> concat (format_exception env ei)
                     | None \<Rightarrow> ''No stack trace available''),
                    user_info)))
   \<and> (format_record env r = Inr (subject, stack_trace, user_info')
      \<longrightarrow> stack_trace = (case exc_info r of
                           Some ei \<Rightarrow> concat (format_exception env ei)
                         | None \<Rightarrow> ''No stack trace available''))"
proof -
  have returns:
    "getMessage r = Inr msg \<and> (\<forall>e. user_info_lookup r = Inl e \<longrightarrow> is_Exception e)
     \<longrightarrow> (\<exists>user_info.
            format_record env r
            = Inr (node env @ '': '' @ msg,
                   (case exc_info r of
                      Some ei \<Rightarrow> concat (format_exception env ei)
                    | None \<Rightarrow> ''No stack trace available''),
                   user_info))"
  proof
    assume h: "getMessage r = Inr msg
               \<and> (\<forall>e. user_info_lookup r = Inl e \<longrightarrow> is_Exception e)"
    then obtain ui where
      "try_except_Exception (user_info_lookup r) (Inr ''Anonymous user (not logged in)'')
       = Inr ui"
      using user_info_guarded [of r] by blast
    with h show "\<exists>user_info.
            format_record env r
            = Inr (node env @ '': '' @ msg,
                   (case exc_info r of
                      Some ei \<Rightarrow> concat (format_exception env ei)
                    | None \<Rightarrow> ''No stack trace available''),
                   user_info)"
      by (simp add: format_record_def Let_def)
  qed
  have component:
    "format_record env r = Inr (subject, stack_trace, user_info')
     \<longrightarrow> stack_trace = (case exc_info r of
                          Some ei \<Rightarrow> concat (format_exception env ei)
                        | None \<Rightarrow> ''No stack trace available'')"
    by (cases "getMessage r";
        cases "try_except_Exception (user_info_lookup r)
                 (Inr ''Anonymous user (not logged in)'')")
       (auto simp: format_record_def Let_def)
  show ?thesis
    by (rule conjI [OF returns component])
qed

theorem format_record_stack_trace_witness:
  "(\<exists>user_info.
      format_record (sample_env None (Inr PyNone))
        (sample_record (Inr ''DB error'') None (Inl AttributeError))
      = Inr (''host1: DB error'', ''No stack trace available'', user_info))
   \<and> (\<exists>user_info.
      format_record (sample_env None (Inr PyNone))
        (sample_record (Inr ''DB error'') (Some db_error) (Inr foo_request))
      = Inr (''host1: DB error'',
             ''Traceback (most recent call last):\<newline>  File views.py, line 3\<newline>DatabaseError: gone\<newline>'',
             user_info))"
proof -
  let ?env = "sample_env None (Inr PyNone)"
  let ?r1 = "sample_record (Inr ''DB error'') None (Inl AttributeError)"
  let ?r2 = "sample_record (Inr ''DB error'') (Some db_error) (Inr foo_request)"
  have h1: "getMessage ?r1 = Inr ''DB error''
            \<and> (\<forall>e. user_info_lookup ?r1 = Inl e \<longrightarrow> is_Exception e)"
    by (simp add: sample_record_def user_info_lookup_def)
  have h2: "getMessage ?r2 = Inr ''DB error''
            \<and> (\<forall>e. user_info_lookup ?r2 = Inl e \<longrightarrow> is_Exception e)"
    by (simp add: sample_record_def user_info_lookup_def foo_request_def alice_def)
  have node: "node ?env = ''host1''"
    by (simp add: sample_env_def)
  have st1: "(case exc_info ?r1 of
                Some ei \<Rightarrow> concat (format_exception ?env ei)
              | None \<Rightarrow> ''No stack trace available'') = ''No stack trace available''"
    by (simp add: sample_record_def)
  have st2: "(case exc_info ?r2 of
                Some ei \<Rightarrow> concat (format_exception ?env ei)
              | None \<Rightarrow> ''No stack trace available'')
             = ''Traceback (most recent call last):\<newline>  File views.py, line 3\<newline>DatabaseError: gone\<newline>''"
    by (simp add: sample_record_def sample_env_def db_error_def)
  show ?thesis
    using format_record_stack_trace [of ?r1 "''DB error''" ?env, THEN conjunct1, THEN mp, OF h1]
          format_record_stack_trace [of ?r2 "''DB error''" ?env, THEN conjunct1, THEN mp, OF h2]
    unfolding node st1 st2 by simp
qed

text \<open>
  C3 (as amended). When \<open>getMessage\<close> returns: the user-info component is
  \<open><full name> (<email>)\<close> when the record's request carries a user with a
  profile, and \<open>Anonymous user (not logged in)\<close> when the lookup raises an
  instance of \<open>Exception\<close>, which then does not escape \<open>format_record\<close>. (As
  stated the claim fails: an exception that is not an instance of \<open>Exception\<close>
  passes the \<open>except Exception\<close> clause.)
\<close>
theorem format_record_user_info:
  assumes "getMessage r = Inr msg"
  shows "(request r = Inr rq \<and> user rq = Inr u \<and> userprofile u = Inr p
            \<and> full_name p = Inr fn \<and> email u = Inr em
          \<longrightarrow> (\<exists>subject stack_trace.
                 format_record env r = Inr (subject, stack_trace, fn @ '' ('' @ em @ '')'')))
       \<and> (user_info_lookup r = Inl e \<and> is_Exception e
          \<longrightarrow> (\<exists>subject stack_trace.
                 format_record env r
                   = Inr (subject, stack_trace, ''Anonymous user (not logged in)'')))"
  using assms
  by (auto simp: format_record_def Let_def user_info_lookup_def try_except_Exception_def)

theorem format_record_user_info_witness:
  "(\<exists>subject stack_trace.
      format_record (sample_env None (Inr PyNone))
        (sample_record (Inr ''DB error'') None (Inr foo_request))
      = Inr (subject, stack_trace, ''Alice (alice@x.com)''))
   \<and> (\<exists>subject stack_trace.
      format_record (sample_env None (Inr PyNone))
        (sample_record (Inr ''DB error'') None (Inl AttributeError))
      = Inr (subject, stack_trace, ''Anonymous user (not logged in)''))"
  using format_record_user_info
          [of "sample_record (Inr ''DB error'') None (Inr foo_request)" "''DB error''"
              foo_request alice "\<lparr> full_name = Inr ''Alice'' \<rparr>" "''Alice''" "''alice@x.com''"
              "sample_env None (Inr PyNone)"]
        format_record_user_info
          [of "sample_record (Inr ''DB error'') None (Inl AttributeError)" "''DB error''"
              _ _ _ _ _ "sample_env None (Inr PyNone)" AttributeError]
  by (simp add: sample_record_def foo_request_def alice_def user_info_lookup_def)

theorem format_record_user_info_counterexample:
  "format_record (sample_env None (Inr PyNone))
     (sample_record (Inr ''DB error'') None
        (Inr (foo_request \<lparr> user := Inr (alice \<lparr> userprofile := Inl KeyboardInterrupt \<rparr>) \<rparr>)))
   = Inl KeyboardInterrupt"
  by (simp add: format_record_def user_info_lookup_def sample_record_def foo_request_def
      alice_def try_except_Exception_def Let_def)

subsection \<open>Claims about the request summary\<close>

text \<open>
  C5 (as amended). The request summary holds the path, then the GET parameters for
  a GET request or the filtered POST parameters for a POST request, then
  \<open>REMOTE_ADDR\<close>, \<open>QUERY_STRING\<close> and \<open>SERVER_NAME\<close>, each \<open>(None)\<close> when
  absent; if building it raises an instance of \<open>Exception\<close> and
  \<open>record.getMessage()\<close> returns, the block is \<open>Log record message:\<close>, a
  newline and the message. (As stated the claim fails: the handler itself calls
  \<open>getMessage\<close>, which may raise, and \<open>except Exception\<close> lets
  \<open>KeyboardInterrupt\<close> through.)
\<close>
theorem request_repr_block_contents:
  "(request r = Inr rq \<and> path rq = Inr p \<and> request_method rq = Inr m \<and> META rq = Inr meta
      \<and> (m = ''GET'' \<longrightarrow> GET rq = Inr g)
      \<and> (m = ''POST'' \<longrightarrow> get_post_parameters env rq = Inr pp)
    \<longrightarrow> request_repr_block env r
        = Inr (''Request info:\<newline>~~~~\<newline>- path: '' @ p @ ''\<newline>''
               @ (if m = ''GET'' then ''- GET: '' @ g @ ''\<newline>''
                  else if m = ''POST'' then ''- POST: '' @ pp @ ''\<newline>'' else [])
               @ ''- REMOTE_ADDR: '' @ [DQ] @ dict_get meta ''REMOTE_ADDR'' ''(None)'' @ [DQ, LF]
               @ ''- QUERY_STRING: '' @ [DQ] @ dict_get meta ''QUERY_STRING'' ''(None)'' @ [DQ, LF]
               @ ''- SERVER_NAME: '' @ [DQ] @ dict_get meta ''SERVER_NAME'' ''(None)'' @ [DQ, LF]
               @ ''~~~~''))
   \<and> (build_request_repr env r = Inl e \<and> is_Exception e \<and> getMessage r = Inr msg
    \<longrightarrow> request_repr_block env r = Inr (''Log record message:\<newline>'' @ msg))"
  by (auto simp: request_repr_block_def build_request_repr_def meta_line_def
      try_except_Exception_def)


theorem request_repr_block_contents_witness:
  "request_repr_block (sample_env None (Inr PyNone))
     (sample_record (Inr ''DB error'') None (Inr foo_request))
   = Inr (''Request info:\<newline>~~~~\<newline>- path: /foo\<newline>- GET: x=1\<newline>''
          @ ''- REMOTE_ADDR: '' @ [DQ] @ ''10.0.0.1'' @ [DQ, LF]
          @ ''- QUERY_STRING: '' @ [DQ] @ ''x=1'' @ [DQ, LF]
          @ ''- SERVER_NAME: '' @ [DQ] @ ''(None)'' @ [DQ, LF] @ ''~~~~'')
   \<and> request_repr_block (sample_env None (Inr PyNone))
       (sample_record (Inr ''DB error'') None (Inr (foo_request \<lparr> path := Inl AttributeError \<rparr>)))
     = Inr ''Log record message:\<newline>DB error''"
  using request_repr_block_contents
          [of "sample_record (Inr ''DB error'') None (Inr foo_request)" foo_request "''/foo''"
              "''GET''" "[(''REMOTE_ADDR'', ''10.0.0.1''), (''QUERY_STRING'', ''x=1'')]"
              "''x=1''" "sample_env None (Inr PyNone)"]
        request_repr_block_contents
          [of "sample_record (Inr ''DB error'') None
                 (Inr (foo_request \<lparr> path := Inl AttributeError \<rparr>))"
              _ _ _ _ _ "sample_env None (Inr PyNone)" _ AttributeError "''DB error''"]
  by (simp add: sample_record_def foo_request_def build_request_repr_def dict_get_def)

theorem request_repr_block_counterexample:
  "request_repr_block (sample_env None (Inr PyNone))
     (sample_record (Inl TypeError) None (Inr (foo_request \<lparr> path := Inl AttributeError \<rparr>)))
   = Inl TypeError
   \<and> request_repr_block (sample_env None (Inr PyNone))
       (sample_record (Inr ''DB error'') None (Inr (foo_request \<lparr> GET := Inl KeyboardInterrupt \<rparr>)))
     = Inl KeyboardInterrupt"
  by (simp add: request_repr_block_def build_request_repr_def sample_record_def foo_request_def
      try_except_Exception_def)

subsection \<open>Claims about the send\<close>

text \<open>
  C6. If the send raises any exception, \<open>emit\<close> catches it, makes exactly one
  warning-level log call with the exception attached, none at error level, and
  returns without raising.
\<close>
theorem emit_send_failure_logs_warning:
  assumes "request_repr_block env r = Inr request_repr"
    and "format_record env r = Inr (subject, stack_trace, user_info)"
    and "internal_send_message env ''humbug+errors@humbughq.com'' STREAM ''devel''
           (format_subject (MAX_SUBJECT_LENGTH env) subject)
           (message_body user_info stack_trace request_repr) = Some e"
  shows "log_calls_at WARNING (fst (emit env r))
           = [LogCall WARNING ''Reporting an exception triggered an exception!'' (Some e)]
         \<and> log_calls_at ERROR (fst (emit env r)) = []
         \<and> snd (emit env r) = Inr ()"
  using assms by (simp add: emit_def Let_def)

theorem emit_send_failure_logs_warning_witness:
  "log_calls_at WARNING (fst (emit (sample_env (Some KeyboardInterrupt) (Inr PyNone))
       (sample_record (Inr ''DB error'') None (Inl AttributeError))))
     = [LogCall WARNING ''Reporting an exception triggered an exception!'' (Some KeyboardInterrupt)]
   \<and> log_calls_at ERROR (fst (emit (sample_env (Some KeyboardInterrupt) (Inr PyNone))
       (sample_record (Inr ''DB error'') None (Inl AttributeError)))) = []
   \<and> snd (emit (sample_env (Some KeyboardInterrupt) (Inr PyNone))
       (sample_record (Inr ''DB error'') None (Inl AttributeError))) = Inr ()"
proof -
  let ?env = "sample_env (Some KeyboardInterrupt) (Inr PyNone)"
  let ?r = "sample_record (Inr ''DB error'') None (Inl AttributeError)"
  have a: "request_repr_block ?env ?r = Inr ''Log record message:\<newline>DB error''"
    by (simp add: request_repr_block_def build_request_repr_def sample_record_def
        try_except_Exception_def)
  have b: "format_record ?env ?r
           = Inr (''host1: DB error'', ''No stack trace available'',
                  ''Anonymous user (not logged in)'')"
    by (simp add: format_record_def sample_record_def sample_env_def user_info_lookup_def
        try_except_Exception_def)
  have c: "internal_send_message ?env ''humbug+errors@humbughq.com'' STREAM ''devel''
             (format_subject (MAX_SUBJECT_LENGTH ?env) ''host1: DB error'')
             (message_body ''Anonymous user (not logged in)'' ''No stack trace available''
                ''Log record message:\<newline>DB error'') = Some KeyboardInterrupt"
    by (simp add: sample_env_def)
  show ?thesis by (rule emit_send_failure_logs_warning [OF a b c])
qed

text \<open>
  C7. The send is made with the fixed bot address, the stream recipient kind, the
  stream name \<open>devel\<close>, the truncated subject, and the body made of
  \<open>Error generated by\<close> and the user info, an empty line, the line
  \<open>~~~~ pytb\<close>, the stack trace, an empty line, the line \<open>~~~~\<close> and the
  request summary.
\<close>
theorem emit_send_arguments:
  assumes "request_repr_block env r = Inr request_repr"
    and "format_record env r = Inr (subject, stack_trace, user_info)"
  shows "filter is_send (fst (emit env r))
         = [InternalSend ''humbug+errors@humbughq.com'' STREAM ''devel''
              (format_subject (MAX_SUBJECT_LENGTH env) subject)
              (''Error generated by '' @ user_info @ ''\<newline>\<newline>~~~~ pytb\<newline>''
               @ stack_trace @ ''\<newline>\<newline>~~~~\<newline>'' @ request_repr)]"
  using assms by (simp add: emit_def Let_def message_body_def split: option.splits)

theorem emit_send_arguments_witness:
  "filter is_send (fst (emit (sample_env None (Inr PyNone))
       (sample_record (Inr ''DB\<newline>error'') None (Inl AttributeError))))
   = [InternalSend ''humbug+errors@humbughq.com'' STREAM ''devel'' (''host1: DB'' @ [BSL] @ ''nerror'')
        ''Error generated by Anonymous user (not logged in)\<newline>\<newline>~~~~ pytb\<newline>No stack trace available\<newline>\<newline>~~~~\<newline>Log record message:\<newline>DB\<newline>error'']"
proof -
  let ?env = "sample_env None (Inr PyNone)"
  let ?r = "sample_record (Inr ''DB\<newline>error'') None (Inl AttributeError)"
  have a: "request_repr_block ?env ?r = Inr ''Log record message:\<newline>DB\<newline>error''"
    by (simp add: request_repr_block_def build_request_repr_def sample_record_def
        try_except_Exception_def)
  have b: "format_record ?env ?r
           = Inr (''host1: DB\<newline>error'', ''No stack trace available'',
                  ''Anonymous user (not logged in)'')"
    by (simp add: format_record_def sample_record_def sample_env_def user_info_lookup_def
        try_except_Exception_def)
  have c: "format_subject (MAX_SUBJECT_LENGTH ?env) ''host1: DB\<newline>error''
           = ''host1: DB'' @ [BSL] @ ''nerror''"
    by (simp add: format_subject_def sample_env_def)
  show ?thesis using emit_send_arguments [OF a b] c by simp
qed

lemma html_message_not_None:
  "html_message env h r req = Inr v \<Longrightarrow> v \<noteq> PyNone
   \<Longrightarrow> truthy (include_html h) \<and> exc_info r \<noteq> None"
  by (cases "exc_info r"; cases "truthy (include_html h)")
     (auto simp: html_message_def build_html_message_def try_except_Exception_def py_and_def
        py_or_def and_then_def split: sum.splits if_splits)

lemma email_emit_mail_html:
  "MailAdmins s m f v \<in> set (fst (email_emit env h r))
   \<Longrightarrow> \<exists>req. html_message env h r req = Inr v"
  by (auto simp: email_emit_def split: sum.splits prod.splits)

subsection \<open>Claims about \<open>HumbugAdminEmailHandler.emit\<close>\<close>

text \<open>
  C8 (as amended). The mail carries an HTML body only when \<open>include_html\<close> is
  true and the record carries exception info; if building the HTML traceback raises
  an instance of \<open>Exception\<close>, the mail is sent with no HTML body and \<open>emit\<close>
  returns. (As stated the claim fails: an exception that is not an instance of
  \<open>Exception\<close> propagates from the HTML-building step and no mail is sent.)
\<close>
theorem email_emit_html_body:
  "(MailAdmins s m f v \<in> set (fst (email_emit env h r)) \<and> v \<noteq> PyNone
      \<longrightarrow> truthy (include_html h) \<and> exc_info r \<noteq> None)
   \<and> (email_request_repr env r = Inr (req, request_repr)
      \<and> format_record env r = Inr (subject, stack_trace, user_info)
      \<and> build_html_message env h r req = Inl e \<and> is_Exception e
      \<longrightarrow> email_emit env h r
          = ([MailAdmins (admin_format_subject env subject)
                (email_message user_info stack_trace request_repr) True PyNone], Inr ()))"
proof -
  have only_when:
    "MailAdmins s m f v \<in> set (fst (email_emit env h r)) \<and> v \<noteq> PyNone
     \<longrightarrow> truthy (include_html h) \<and> exc_info r \<noteq> None"
    using email_emit_mail_html [of s m f v env h r] html_message_not_None [of env h r _ v]
    by blast
  have on_failure:
    "email_request_repr env r = Inr (req, request_repr)
     \<and> format_record env r = Inr (subject, stack_trace, user_info)
     \<and> build_html_message env h r req = Inl e \<and> is_Exception e
     \<longrightarrow> email_emit env h r
         = ([MailAdmins (admin_format_subject env subject)
               (email_message user_info stack_trace request_repr) True PyNone], Inr ())"
    by (simp add: email_emit_def html_message_def try_except_Exception_def)
  show ?thesis
    by (rule conjI [OF only_when on_failure])
qed

theorem email_emit_html_body_witness:
  "(truthy (include_html \<lparr> include_html = PyBool True \<rparr>)
     \<and> exc_info (sample_record (Inr ''DB error'') (Some db_error) (Inr foo_request)) \<noteq> None)
   \<and> email_emit (sample_env None (Inr (PyStr ''<html></html>''))) \<lparr> include_html = PyBool True \<rparr>
       (sample_record (Inr ''DB error'') None (Inr foo_request))
     = ([MailAdmins ''host1: DB error''
           ''Error generated by Alice (alice@x.com)\<newline>\<newline>No stack trace available\<newline>\<newline><WSGIRequest>''
           True PyNone], Inr ())"
proof -
  let ?env = "sample_env None (Inr (PyStr ''<html></html>''))"
  let ?h = "\<lparr> include_html = PyBool True \<rparr>"
  let ?r1 = "sample_record (Inr ''DB error'') (Some db_error) (Inr foo_request)"
  let ?r2 = "sample_record (Inr ''DB error'') None (Inr foo_request)"
  let ?tb = "''Traceback (most recent call last):\<newline>  File views.py, line 3\<newline>DatabaseError: gone\<newline>''"
  have rr1: "email_request_repr ?env ?r1 = Inr (Some foo_request, ''<WSGIRequest>'')"
    by (simp add: email_request_repr_def sample_record_def sample_env_def)
  have rr2: "email_request_repr ?env ?r2 = Inr (Some foo_request, ''<WSGIRequest>'')"
    by (simp add: email_request_repr_def sample_record_def sample_env_def)
  have fr1: "format_record ?env ?r1 = Inr (''host1: DB error'', ?tb, ''Alice (alice@x.com)'')"
    by (simp add: format_record_def sample_record_def sample_env_def user_info_lookup_def
        foo_request_def alice_def db_error_def)
  have fr2: "format_record ?env ?r2
             = Inr (''host1: DB error'', ''No stack trace available'', ''Alice (alice@x.com)'')"
    by (simp add: format_record_def sample_record_def sample_env_def user_info_lookup_def
        foo_request_def alice_def)
  have html1: "html_message ?env ?h ?r1 (Some foo_request) = Inr (PyStr ''<html></html>'')"
    by (simp add: html_message_def build_html_message_def sample_record_def sample_env_def
        py_and_def py_or_def)
  have sent: "MailAdmins ''host1: DB error''
                (email_message ''Alice (alice@x.com)'' ?tb ''<WSGIRequest>'') True
                (PyStr ''<html></html>'') \<in> set (fst (email_emit ?env ?h ?r1))
              \<and> PyStr ''<html></html>'' \<noteq> PyNone"
    by (simp add: email_emit_def rr1 fr1 html1) (simp add: sample_env_def format_subject_def)
  have fails: "build_html_message ?env ?h ?r2 (Some foo_request) = Inl TypeError"
    by (simp add: build_html_message_def sample_record_def)
  have first: "truthy (include_html ?h) \<and> exc_info ?r1 \<noteq> None"
    using email_emit_html_body [of _ _ _ _ ?env ?h ?r1] sent by blast
  have second: "email_emit ?env ?h ?r2
                = ([MailAdmins (admin_format_subject ?env ''host1: DB error'')
                      (email_message ''Alice (alice@x.com)'' ''No stack trace available''
                         ''<WSGIRequest>'') True PyNone], Inr ())"
    using email_emit_html_body [of _ _ _ _ ?env ?h ?r2 "Some foo_request" "''<WSGIRequest>''"
        "''host1: DB error''" "''No stack trace available''" "''Alice (alice@x.com)''" TypeError]
      rr2 fr2 fails by simp
  show ?thesis
    using first second by (simp add: email_message_def sample_env_def format_subject_def)
qed

theorem email_emit_html_body_counterexample:
  "email_emit (sample_env None (Inl KeyboardInterrupt)) \<lparr> include_html = PyBool True \<rparr>
     (sample_record (Inr ''DB error'') (Some db_error) (Inr foo_request))
   = ([], Inl KeyboardInterrupt)"
  by (simp add: email_emit_def email_request_repr_def format_record_def user_info_lookup_def
      html_message_def build_html_message_def py_and_def sample_record_def sample_env_def
      foo_request_def alice_def db_error_def try_except_Exception_def)

text \<open>
  C10. If the HTML traceback renders to the empty string, or any false value, the
  \<open>html_message\<close> passed to \<open>mail_admins\<close> is \<open>None\<close>, not that value.
\<close>
theorem email_emit_falsy_html_is_None:
  assumes "email_request_repr env r = Inr (req, request_repr)"
    and "format_record env r = Inr (subject, stack_trace, user_info)"
    and "exc_info r = Some ei"
    and "truthy (include_html h)"
    and "get_traceback_html env req ei = Inr v"
    and "\<not> truthy v"
  shows "email_emit env h r
         = ([MailAdmins (admin_format_subject env subject)
               (email_message user_info stack_trace request_repr) True PyNone], Inr ())"
  using assms
  by (simp add: email_emit_def html_message_def build_html_message_def py_and_def py_or_def)

theorem email_emit_falsy_html_is_None_witness:
  "email_emit (sample_env None (Inr (PyStr []))) \<lparr> include_html = PyBool True \<rparr>
     (sample_record (Inr ''DB error'') (Some db_error) (Inl AttributeError))
   = ([MailAdmins ''host1: DB error''
         ''Error generated by Anonymous user (not logged in)\<newline>\<newline>Traceback (most recent call last):\<newline>  File views.py, line 3\<newline>DatabaseError: gone\<newline>\<newline>\<newline>Log record message:\<newline>DB error''
         True PyNone], Inr ())"
proof -
  let ?env = "sample_env None (Inr (PyStr []))"
  let ?h = "\<lparr> include_html = PyBool True \<rparr>"
  let ?r = "sample_record (Inr ''DB error'') (Some db_error) (Inl AttributeError)"
  let ?tb = "''Traceback (most recent call last):\<newline>  File views.py, line 3\<newline>DatabaseError: gone\<newline>''"
  have rr: "email_request_repr ?env ?r = Inr (None, ''Log record message:\<newline>DB error'')"
    by (simp add: email_request_repr_def sample_record_def try_except_Exception_def)
  have fr: "format_record ?env ?r
            = Inr (''host1: DB error'', ?tb, ''Anonymous user (not logged in)'')"
    by (simp add: format_record_def sample_record_def sample_env_def user_info_lookup_def
        db_error_def try_except_Exception_def)
  have ei: "exc_info ?r = Some db_error"
    by (simp add: sample_record_def)
  have inc: "truthy (include_html ?h)"
    by simp
  have html: "get_traceback_html ?env None db_error = Inr (PyStr [])"
    by (simp add: sample_env_def)
  have falsy: "\<not> truthy (PyStr [])"
    by simp
  show ?thesis
    using email_emit_falsy_html_is_None [OF rr fr ei inc html falsy]
    by (simp add: email_message_def sample_env_def format_subject_def)
qed

end
